theory Spec2Isabelle
  imports Main
begin

section \<open>Python values, tensors and errors\<close>

text \<open>
  The rollout code of the repository is Python over PyTorch tensors. Every exception the
  modelled lines can raise is a value of \<open>error\<close>; a function that may raise returns
  \<open>error + 'a\<close> with \<open>Inl\<close> for the exception. Assertions are enabled: a failing
  \<open>assert\<close> raises \<open>AssertionError\<close>.

  A two-dimensional \<open>LongTensor\<close> of shape \<open>(B, L)\<close> is the list of its \<open>B\<close> rows
  (\<open>B \<ge> 1\<close>: a list of rows cannot record the column count of a tensor without rows).
  Token ids are Python integers. Where the source builds a tensor with
  \<open>torch.Tensor([...]).long()\<close> the ids pass through float32; vocabulary ids are below
  \<open>2^24\<close>, where that round trip is the identity, so the model keeps them as integers.
\<close>

datatype error =
  AssertionError | RuntimeError | IndexError | KeyError | TypeError | ValueError
  | UnboundLocalError

type_synonym tensor2 = "int list list"

definition shape1 :: "tensor2 \<Rightarrow> nat" where
  \<comment> \<open>\<open>t.shape[1]\<close>\<close>
  "shape1 t = (case t of [] \<Rightarrow> 0 | row # _ \<Rightarrow> length row)"

definition last_three :: "int list \<Rightarrow> int list" where
  \<comment> \<open>\<open>row[-3:]\<close>: the whole row when it has fewer than three entries\<close>
  "last_three row = drop (length row - 3) row"

definition select_last :: "tensor2 \<Rightarrow> error + int list" where
  \<comment> \<open>\<open>input_ids[:, -1]\<close>: index -1 is out of bounds for a dimension of size 0\<close>
  "select_last input_ids =
     (if [] \<in> set input_ids then Inl IndexError else Inr (map last input_ids))"

definition select_first :: "tensor2 \<Rightarrow> error + int list" where
  \<comment> \<open>\<open>input_ids[:, 0]\<close>\<close>
  "select_first input_ids =
     (if [] \<in> set input_ids then Inl IndexError else Inr (map hd input_ids))"

text \<open>
  The right operand of a tensor comparison: an integer, or a builtin type object such as
  \<open>int\<close> itself. \<open>Tensor.__eq__\<close> turns the \<open>TypeError\<close> of an operand it cannot
  convert into \<open>NotImplemented\<close>; Python then falls back to identity, and the comparison
  is the plain bool \<open>False\<close>, not a tensor.
\<close>

datatype pyobj = PyInt int | PyBuiltinType string

datatype mask = PyBool bool | BoolTensor "bool list"

fun tensor_eq :: "int list \<Rightarrow> pyobj \<Rightarrow> mask" where
  "tensor_eq t (PyInt n) = BoolTensor (map (\<lambda>x. x = n) t)"
| "tensor_eq t (PyBuiltinType _) = PyBool False"

section \<open>stop_criteria.py\<close>

definition get_matching_eos_mask :: "tensor2 \<Rightarrow> int \<Rightarrow> error + mask" where
  \<comment> \<open>\<open>last_token = input_ids[:, -1]; matching_idx = last_token == int\<close>: the parameter
      \<open>eos\<close> is not used\<close>
  "get_matching_eos_mask input_ids eos =
     (case select_last input_ids of
        Inl e \<Rightarrow> Inl e
      | Inr last_token \<Rightarrow> Inr (tensor_eq last_token (PyBuiltinType ''int'')))"

text \<open>
  A pattern tensor has shape \<open>(M, 3)\<close>: a list of triples. \<open>get_matching_seq_mask\<close>
  compares \<open>last_three.unsqueeze(1)\<close>, of shape \<open>(B, 1, min L 3)\<close>, with
  \<open>pattern.unsqueeze(0)\<close>, of shape \<open>(1, M, 3)\<close>. Broadcasting accepts a last dimension
  of 3, stretches a last dimension of 1, and raises \<open>RuntimeError\<close> for 0 and 2.
\<close>

type_synonym pattern = "int \<times> int \<times> int"

fun row_matches :: "int list \<Rightarrow> pattern \<Rightarrow> bool" where
  \<comment> \<open>\<open>matches.all(dim=-1)\<close> for one row and one pattern\<close>
  "row_matches [a, b, c] (p, q, r) = (a = p \<and> b = q \<and> c = r)"
| "row_matches [a] (p, q, r) = (a = p \<and> a = q \<and> a = r)"
| "row_matches _ _ = False"

definition broadcastable :: "int list \<Rightarrow> bool" where
  "broadcastable t = (length t = 3 \<or> length t = 1)"

definition get_matching_seq_mask :: "tensor2 \<Rightarrow> pattern list \<Rightarrow> error + bool list" where
  "get_matching_seq_mask input_ids pattern =
     (let last_three = map last_three input_ids in
      if list_all broadcastable last_three
      then Inr (map (\<lambda>t. list_ex (row_matches t) pattern) last_three)
      else Inl RuntimeError)"

record tokenizer =
  encode :: "string \<Rightarrow> int list"
  get_vocab :: "(string \<times> int) list"
  eos_token_id :: int

definition endswith :: "string \<Rightarrow> string \<Rightarrow> bool" where
  "endswith s suffix =
     (length suffix \<le> length s \<and> drop (length s - length suffix) s = suffix)"

definition startswith :: "string \<Rightarrow> string \<Rightarrow> bool" where
  "startswith s prefix = (take (length prefix) s = prefix)"

definition think_token_id :: int where
  "think_token_id = 26865"

definition left_matching_token_ids :: "tokenizer \<Rightarrow> int list" where
  "left_matching_token_ids tok =
     map snd (filter (\<lambda>(token, token_id). endswith token ''</'') (get_vocab tok))"

definition right_matching_token_ids :: "tokenizer \<Rightarrow> int list" where
  "right_matching_token_ids tok =
     map snd (filter (\<lambda>(token, token_id). startswith token ''>'') (get_vocab tok))"

definition itertools_product :: "'a list \<Rightarrow> 'b list \<Rightarrow> ('a \<times> 'b) list" where
  "itertools_product xs ys = concat (map (\<lambda>x. map (\<lambda>y. (x, y)) ys) xs)"

definition torch_stack :: "'a list \<Rightarrow> error + 'a list" where
  \<comment> \<open>\<open>torch.stack\<close> expects a non-empty list of tensors\<close>
  "torch_stack ts = (if ts = [] then Inl RuntimeError else Inr ts)"

record matching_criteria =
  mc_tokenizer :: tokenizer
  think_token_combo :: "pattern list"

definition MatchingTokensStoppingCriteria_init :: "tokenizer \<Rightarrow> error + matching_criteria" where
  "MatchingTokensStoppingCriteria_init tok =
     (case torch_stack
             (map (\<lambda>(left_token_id, right_token_id).
                     (left_token_id, think_token_id, right_token_id))
                (itertools_product (left_matching_token_ids tok)
                   (right_matching_token_ids tok))) of
        Inl e \<Rightarrow> Inl e
      | Inr combo \<Rightarrow> Inr \<lparr>mc_tokenizer = tok, think_token_combo = combo\<rparr>)"

definition MatchingTokensStoppingCriteria_call ::
  "matching_criteria \<Rightarrow> tensor2 \<Rightarrow> error + bool list" where
  "MatchingTokensStoppingCriteria_call self input_ids =
     (let seq_len = shape1 input_ids in
      if seq_len \<le> 3 then
        (case select_first input_ids of
           Inl e \<Rightarrow> Inl e
         | Inr col \<Rightarrow> Inr (map (\<lambda>_. False) col))
      else
        (case get_matching_seq_mask input_ids (think_token_combo self) of
           Inl e \<Rightarrow> Inl e
         | Inr rows_matching \<Rightarrow>
             if list_ex id rows_matching then
               Inr (map (\<lambda>row. \<not> (last row = eos_token_id (mc_tokenizer self))) input_ids)
             else Inr (map (\<lambda>_. False) input_ids)))"

definition AnyEosStoppingCriteria_call :: "int list \<Rightarrow> tensor2 \<Rightarrow> error + bool list" where
  \<comment> \<open>\<open>self.eos_token_id\<close> is the list of end-of-sequence ids\<close>
  "AnyEosStoppingCriteria_call eos_ids input_ids =
     (case select_last input_ids of
        Inl e \<Rightarrow> Inl e
      | Inr last_token \<Rightarrow>
          (let any_eos = list_ex (\<lambda>eos. list_ex (\<lambda>t. t = eos) last_token) eos_ids in
           Inr (map (\<lambda>_. any_eos) input_ids)))"

section \<open>hf_rollout.py: the generator and budget_forcing_gen\<close>

text \<open>
  \<open>model.generate\<close> is the external generator: it receives the keyword arguments of the
  call and returns the batch of sequences, each starting with its input row. It samples,
  so it reads and updates a state of its own. The model threads that state together with
  the list of calls made so far, so that "no call was made" is a statement about the
  trace. The generation config (temperature, top-p, top-k) is fixed per rollout and is
  part of the generator; \<open>num_return_sequences\<close> is 1 where a call does not pass it.
\<close>

record gen_request =
  req_input_ids :: tensor2
  req_attention_mask :: tensor2
  req_do_sample :: bool
  req_max_new_tokens :: int
  req_eos_token_id :: int
  req_pad_token_id :: int
  req_num_return_sequences :: int
  req_stopping_criteria :: "(tensor2 \<Rightarrow> error + bool list) list"

type_synonym 's generator = "gen_request \<Rightarrow> 's \<Rightarrow> tensor2 \<times> 's"

record 's world =
  gen_state :: 's
  calls :: "gen_request list"

definition model_generate :: "'s generator \<Rightarrow> gen_request \<Rightarrow> 's world \<Rightarrow> tensor2 \<times> 's world" where
  "model_generate gen req w =
     (case gen req (gen_state w) of
        (out, s') \<Rightarrow> (out, \<lparr>gen_state = s', calls = calls w @ [req]\<rparr>))"

definition dict_get :: "(string \<rightharpoonup> int) \<Rightarrow> string \<Rightarrow> error + int" where
  \<comment> \<open>\<open>d[k]\<close>\<close>
  "dict_get d k = (case d k of None \<Rightarrow> Inl KeyError | Some v \<Rightarrow> Inr v)"

definition newline :: string where
  "newline = [CHR 0x0A]"

definition make_replacement_seq :: "(string \<rightharpoonup> int) \<Rightarrow> error + int list" where
  \<comment> \<open>\<open>torch.Tensor([replace_tokens["\n"], replace_tokens["Wait"], replace_tokens[","]])\<close>\<close>
  "make_replacement_seq replace_tokens =
     (case dict_get replace_tokens newline of
        Inl e \<Rightarrow> Inl e
      | Inr nl \<Rightarrow>
     (case dict_get replace_tokens ''Wait'' of
        Inl e \<Rightarrow> Inl e
      | Inr wait \<Rightarrow>
     (case dict_get replace_tokens '','' of
        Inl e \<Rightarrow> Inl e
      | Inr comma \<Rightarrow> Inr [nl, wait, comma])))"

definition nonzero :: "bool list \<Rightarrow> nat list" where
  \<comment> \<open>\<open>torch.nonzero(mask, as_tuple=True)[0]\<close>\<close>
  "nonzero m = filter (\<lambda>i. m ! i) [0..<length m]"

definition set_last_three :: "int list \<Rightarrow> int list \<Rightarrow> int list" where
  \<comment> \<open>\<open>row[-3:] = v\<close> on a row of at least three entries\<close>
  "set_last_three row v = take (length row - 3) row @ v"

definition setitem_rows_last_three :: "tensor2 \<Rightarrow> nat list \<Rightarrow> int list \<Rightarrow> error + tensor2" where
  \<comment> \<open>\<open>t[idx, -3:] = v\<close> with \<open>v\<close> of shape \<open>(3,)\<close>: the indexed result has shape
      \<open>(len idx, min L 3)\<close>, and \<open>v\<close> must broadcast to it\<close>
  "setitem_rows_last_three t idx v =
     (if list_all (\<lambda>row. length (last_three row) = length v) t
      then Inr (map (\<lambda>i. if i \<in> set idx then set_last_three (t ! i) v else t ! i)
                  [0..<length t])
      else Inl RuntimeError)"

definition set_last :: "int list \<Rightarrow> int \<Rightarrow> int list" where
  "set_last row v = butlast row @ [v]"

fun setitem_mask_last :: "tensor2 \<Rightarrow> mask \<Rightarrow> int \<Rightarrow> error + tensor2" where
  \<comment> \<open>\<open>t[m, -1] = v\<close>. With a boolean tensor \<open>m\<close> the rows it selects get \<open>v\<close> in their
      last column. A plain Python bool is not a row mask: it adds a leading dimension of
      size 1 (\<open>True\<close>) or 0 (\<open>False\<close>), and the \<open>-1\<close> then selects the last row of the
      batch.\<close>
  "setitem_mask_last t (BoolTensor m) v =
     (if length m \<noteq> length t \<or> [] \<in> set t then Inl IndexError
      else Inr (map (\<lambda>(row, b). if b then set_last row v else row) (zip t m)))"
| "setitem_mask_last t (PyBool b) v =
     (if t = [] then Inl IndexError
      else if b then Inr (butlast t @ [map (\<lambda>_. v) (last t)])
      else Inr t)"

definition cat_ones :: "tensor2 \<Rightarrow> tensor2 \<Rightarrow> nat \<Rightarrow> error + tensor2" where
  \<comment> \<open>\<open>torch.cat([attention_mask, torch.ones_like(output_seqs[:, prompt_length:])], dim=-1)\<close>\<close>
  "cat_ones attention_mask output_seqs prompt_length =
     (if length attention_mask \<noteq> length output_seqs then Inl RuntimeError
      else Inr (map (\<lambda>(m, row). m @ replicate (length row - prompt_length) 1)
                  (zip attention_mask output_seqs)))"

text \<open>
  The local variables of \<open>budget_forcing_gen\<close> that the Forcing loop reads or writes.
  \<open>current_used_budget\<close> is assigned once, before the loop.
\<close>

record 's locals =
  output_seqs :: tensor2
  input_idx :: tensor2
  attention_mask :: tensor2
  prompt_length :: nat
  current_used_budget :: int
  world :: "'s world"

record bf_config =
  bf_tokenizer :: tokenizer
  bf_eos_token_id :: int
  bf_pad_token_id :: int
  min_budget :: int
  max_budget :: int
  replace_tokens :: "string \<rightharpoonup> int"

definition stopping_criteria :: "matching_criteria \<Rightarrow> int \<Rightarrow> (tensor2 \<Rightarrow> error + bool list) list" where
  \<comment> \<open>\<open>[matching_seq_stop_criteria, eos_stop_criteria]\<close>\<close>
  "stopping_criteria crit eos =
     [MatchingTokensStoppingCriteria_call crit, AnyEosStoppingCriteria_call [eos]]"

definition splice :: "bf_config \<Rightarrow> matching_criteria \<Rightarrow> int list \<Rightarrow> tensor2 \<Rightarrow> error + tensor2" where
  \<comment> \<open>lines 93 to 98: the two masks are computed first, then the two assignments\<close>
  "splice cfg crit replacement_seq out =
     (case get_matching_seq_mask out (think_token_combo crit) of
        Inl e \<Rightarrow> Inl e
      | Inr matching_seq_mask \<Rightarrow>
     (case get_matching_eos_mask out (eos_token_id (bf_tokenizer cfg)) of
        Inl e \<Rightarrow> Inl e
      | Inr matching_eos_mask \<Rightarrow>
     (case setitem_rows_last_three out (nonzero matching_seq_mask) replacement_seq of
        Inl e \<Rightarrow> Inl e
      | Inr out1 \<Rightarrow>
     (case dict_get (replace_tokens cfg) newline of
        Inl e \<Rightarrow> Inl e
      | Inr nl \<Rightarrow> setitem_mask_last out1 matching_eos_mask nl))))"

definition forcing_body ::
  "'s generator \<Rightarrow> bf_config \<Rightarrow> matching_criteria \<Rightarrow> int list \<Rightarrow> 's locals \<Rightarrow> error + 's locals" where
  \<comment> \<open>one iteration of the while loop, lines 93 to 117\<close>
  "forcing_body gen cfg crit replacement_seq st =
     (case splice cfg crit replacement_seq (output_seqs st) of
        Inl e \<Rightarrow> Inl e
      | Inr out \<Rightarrow>
     (case cat_ones (attention_mask st) out (prompt_length st) of
        Inl e \<Rightarrow> Inl e
      | Inr new_input_attention_masks \<Rightarrow>
          (case model_generate gen
                  \<lparr>req_input_ids = out,
                   req_attention_mask = new_input_attention_masks,
                   req_do_sample = True,
                   req_max_new_tokens = (max_budget cfg - 128) - current_used_budget st,
                   req_eos_token_id = bf_eos_token_id cfg,
                   req_pad_token_id = bf_pad_token_id cfg,
                   req_num_return_sequences = 1,
                   req_stopping_criteria = stopping_criteria crit (bf_eos_token_id cfg)\<rparr>
                  (world st) of
             (out', w') \<Rightarrow>
               Inr (st\<lparr>output_seqs := out', input_idx := out,
                       attention_mask := new_input_attention_masks,
                       prompt_length := shape1 out, world := w'\<rparr>))))"

text \<open>
  The while loop may run forever, so it is a partial function into \<open>option\<close>: \<open>None\<close>
  is the loop that never exits, \<open>Some (Inl (e, w))\<close> the exception \<open>e\<close> raised in the
  body with the generator calls made until then, \<open>Some (Inr st)\<close> the locals at the
  normal exit.
\<close>

partial_function (option) forcing_loop ::
  "'s generator \<Rightarrow> bf_config \<Rightarrow> matching_criteria \<Rightarrow> int list \<Rightarrow> 's locals
     \<Rightarrow> (error \<times> 's world + 's locals) option" where
  "forcing_loop gen cfg crit replacement_seq st =
     (if current_used_budget st < min_budget cfg then
        (case forcing_body gen cfg crit replacement_seq st of
           Inl e \<Rightarrow> Some (Inl (e, world st))
         | Inr st' \<Rightarrow> forcing_loop gen cfg crit replacement_seq st')
      else Some (Inr st))"

definition finishing ::
  "'s generator \<Rightarrow> bf_config \<Rightarrow> 's locals \<Rightarrow> (error + tensor2) \<times> 's world" where
  \<comment> \<open>lines 119 to 133: the final round, without stopping criteria\<close>
  "finishing gen cfg st =
     (case cat_ones (attention_mask st) (output_seqs st) (prompt_length st) of
        Inl e \<Rightarrow> (Inl e, world st)
      | Inr new_input_attention_masks \<Rightarrow>
          (case model_generate gen
                  \<lparr>req_input_ids = output_seqs st,
                   req_attention_mask = new_input_attention_masks,
                   req_do_sample = True,
                   req_max_new_tokens = max_budget cfg - current_used_budget st,
                   req_eos_token_id = bf_eos_token_id cfg,
                   req_pad_token_id = bf_pad_token_id cfg,
                   req_num_return_sequences = 1,
                   req_stopping_criteria = []\<rparr>
                  (world st) of
             (out, w') \<Rightarrow> (Inr out, w')))"

definition priming ::
  "'s generator \<Rightarrow> bf_config \<Rightarrow> matching_criteria \<Rightarrow> tensor2 \<Rightarrow> tensor2 \<Rightarrow> 's world \<Rightarrow> 's locals" where
  \<comment> \<open>lines 71 to 90: the first round and the one assignment of \<open>current_used_budget\<close>\<close>
  "priming gen cfg crit input_ids input_attention_masks w =
     (case model_generate gen
             \<lparr>req_input_ids = input_ids,
              req_attention_mask = input_attention_masks,
              req_do_sample = True,
              req_max_new_tokens = max_budget cfg - 128,
              req_eos_token_id = bf_eos_token_id cfg,
              req_pad_token_id = bf_pad_token_id cfg,
              req_num_return_sequences = 1,
              req_stopping_criteria = stopping_criteria crit (bf_eos_token_id cfg)\<rparr> w of
        (out, w') \<Rightarrow>
          \<lparr>output_seqs = out, input_idx = input_ids,
           attention_mask = input_attention_masks,
           prompt_length = shape1 input_ids,
           current_used_budget = int (shape1 out) - int (shape1 input_ids),
           world = w'\<rparr>)"

definition budget_forcing_gen ::
  "'s generator \<Rightarrow> bf_config \<Rightarrow> tensor2 \<Rightarrow> tensor2 \<Rightarrow> 's world
     \<Rightarrow> ((error + tensor2) \<times> 's world) option" where
  "budget_forcing_gen gen cfg input_ids input_attention_masks w =
     (if \<not> (max_budget cfg - min_budget cfg > 128) then Some (Inl AssertionError, w)
      else
        (case MatchingTokensStoppingCriteria_init (bf_tokenizer cfg) of
           Inl e \<Rightarrow> Some (Inl e, w)
         | Inr crit \<Rightarrow>
        (case make_replacement_seq (replace_tokens cfg) of
           Inl e \<Rightarrow> Some (Inl e, w)
         | Inr replacement_seq \<Rightarrow>
        (case forcing_loop gen cfg crit replacement_seq
                (priming gen cfg crit input_ids input_attention_masks w) of
           None \<Rightarrow> None
         | Some (Inl (e, w')) \<Rightarrow> Some (Inl e, w')
         | Some (Inr st) \<Rightarrow> Some (finishing gen cfg st)))))"

section \<open>hf_rollout.py: HFRollout\<close>

record rollout_config =
  do_budget_forcing :: bool
  cfg_min_budget :: int
  cfg_max_budget :: int
  cfg_do_sample :: bool
  cfg_response_length :: int
  cfg_n :: int

record hf_rollout =
  hf_tokenizer :: tokenizer
  config :: rollout_config
  replacement_tokens :: "string \<rightharpoonup> int"

definition first_id :: "int list \<Rightarrow> error + int" where
  \<comment> \<open>\<open>ids[0]\<close>\<close>
  "first_id ids = (case ids of [] \<Rightarrow> Inl IndexError | x # _ \<Rightarrow> Inr x)"

definition HFRollout_init :: "tokenizer \<Rightarrow> rollout_config \<Rightarrow> error + hf_rollout" where
  "HFRollout_init tok cfg =
     (let wait_ids = encode tok ''Wait'' in
      if length wait_ids \<noteq> 1 then Inl AssertionError
      else
        (case first_id wait_ids of
           Inl e \<Rightarrow> Inl e
         | Inr wait_token_id \<Rightarrow>
        (case first_id (encode tok newline) of
           Inl e \<Rightarrow> Inl e
         | Inr new_line_id \<Rightarrow>
        (case first_id (encode tok '','') of
           Inl e \<Rightarrow> Inl e
         | Inr comma_id \<Rightarrow>
             Inr \<lparr>hf_tokenizer = tok, config = cfg,
                  replacement_tokens =
                    [newline \<mapsto> new_line_id, ''Wait'' \<mapsto> wait_token_id,
                     '','' \<mapsto> comma_id]\<rparr>))))"

text \<open>
  The prompts of a minibatch: the three tensors of \<open>prompts.batch\<close> and the entries of
  \<open>prompts.meta_info\<close> that \<open>_generate_minibatch\<close> reads; an optional entry is
  \<open>None\<close> when the key is absent.
\<close>

record prompts =
  p_input_ids :: tensor2
  p_attention_mask :: tensor2
  p_position_ids :: tensor2
  meta_eos_token_id :: int
  meta_pad_token_id :: int
  meta_do_sample :: "bool option"
  meta_response_length :: "int option"
  meta_validate :: "bool option"

record data_proto =
  dp_prompts :: tensor2
  dp_responses :: tensor2
  dp_input_ids :: tensor2
  dp_attention_mask :: tensor2
  dp_position_ids :: tensor2

definition meta_get :: "'a option \<Rightarrow> 'a \<Rightarrow> 'a" where
  \<comment> \<open>\<open>meta_info.get(key, default)\<close>\<close>
  "meta_get v d = (case v of None \<Rightarrow> d | Some x \<Rightarrow> x)"

definition repeat_interleave :: "tensor2 \<Rightarrow> nat \<Rightarrow> tensor2" where
  "repeat_interleave t n = concat (map (\<lambda>row. replicate n row) t)"

definition broadcast_add :: "int list \<Rightarrow> int list \<Rightarrow> error + int list" where
  \<comment> \<open>\<open>a + b\<close> on one row: equal sizes, or a size of 1 is stretched\<close>
  "broadcast_add a b =
     (if length a = length b then Inr (map (\<lambda>(x, y). x + y) (zip a b))
      else if length a = 1 then Inr (map (\<lambda>y. hd a + y) b)
      else if length b = 1 then Inr (map (\<lambda>x. x + hd b) a)
      else Inl RuntimeError)"

fun collect :: "(error + 'a) list \<Rightarrow> error + 'a list" where
  \<comment> \<open>the rows of a batched operation: the first error, or all results\<close>
  "collect [] = Inr []"
| "collect (Inl e # rs) = Inl e"
| "collect (Inr x # rs) = (case collect rs of Inl e \<Rightarrow> Inl e | Inr xs \<Rightarrow> Inr (x # xs))"

definition assemble ::
  "(tensor2 \<Rightarrow> int \<Rightarrow> tensor2) \<Rightarrow> rollout_config \<Rightarrow> prompts \<Rightarrow> nat \<Rightarrow> tensor2
     \<Rightarrow> error + data_proto" where
  \<comment> \<open>lines 232 to 277, with \<open>get_eos_mask\<close> of \<open>verl.utils.torch_functional\<close> as a
      parameter\<close>
  "assemble get_eos_mask cfg p num_return_sequences seq0 =
     (let prompt_length = shape1 (p_input_ids p);
          rep = (\<lambda>t. if num_return_sequences > 1
                      then repeat_interleave t num_return_sequences else t);
          attention_mask = rep (p_attention_mask p);
          position_ids = rep (p_position_ids p);
          batch_size = (if num_return_sequences > 1
                        then length (p_input_ids p) * num_return_sequences
                        else length (p_input_ids p));
          sequence_length = int prompt_length + cfg_response_length cfg;
          delta_length = sequence_length - int (shape1 seq0)
      in
        if delta_length > 0 \<and> length seq0 \<noteq> batch_size then Inl RuntimeError
        else
          (let seq = (if delta_length > 0
                      then map (\<lambda>row. row @ replicate (nat delta_length) (meta_pad_token_id p)) seq0
                      else seq0)
           in
             if int (shape1 seq) \<noteq> sequence_length then Inl AssertionError
             else
               (let prompt = map (take prompt_length) seq;
                    response = map (drop prompt_length) seq;
                    response_length = shape1 response;
                    delta_position_id = map int [1..<response_length + 1]
                in
                  (case collect (map (\<lambda>row. broadcast_add (drop (length row - 1) row)
                                           delta_position_id) position_ids) of
                     Inl e \<Rightarrow> Inl e
                   | Inr response_position_ids \<Rightarrow>
                       (let response_attention_mask =
                              get_eos_mask response (meta_eos_token_id p)
                        in
                          if length position_ids \<noteq> batch_size
                             \<or> length attention_mask \<noteq> length response_attention_mask
                          then Inl RuntimeError
                          else
                            Inr \<lparr>dp_prompts = prompt, dp_responses = response,
                                 dp_input_ids = seq,
                                 dp_attention_mask =
                                   map (\<lambda>(m, r). m @ r)
                                     (zip attention_mask response_attention_mask),
                                 dp_position_ids =
                                   map (\<lambda>(q, r). q @ r)
                                     (zip position_ids response_position_ids)\<rparr>)))))"

text \<open>
  \<open>_generate_minibatch\<close>. The local \<open>output_seqs\<close> is bound only by an assignment; it
  is \<open>None\<close> while unbound, and reading it then raises \<open>UnboundLocalError\<close>. The
  budget-forcing branch calls \<open>budget_forcing_gen\<close> as an expression statement.
\<close>

definition generate_minibatch ::
  "(tensor2 \<Rightarrow> int \<Rightarrow> tensor2) \<Rightarrow> 's generator \<Rightarrow> hf_rollout \<Rightarrow> prompts \<Rightarrow> 's world
     \<Rightarrow> ((error + data_proto) \<times> 's world) option" where
  "generate_minibatch get_eos_mask gen self p w =
     (let idx = p_input_ids p;
          attention_mask = p_attention_mask p;
          eos_token_id = meta_eos_token_id p;
          pad_token_id = meta_pad_token_id p;
          do_sample = meta_get (meta_do_sample p) (cfg_do_sample (config self));
          response_length = meta_get (meta_response_length p)
                              (cfg_response_length (config self));
          num_return_sequences = (if do_sample then cfg_n (config self) else 1);
          validate = meta_get (meta_validate p) False;
          branch =
            (if \<not> validate \<and> do_budget_forcing (config self) then
               (case budget_forcing_gen gen
                       \<lparr>bf_tokenizer = hf_tokenizer self,
                        bf_eos_token_id = eos_token_id,
                        bf_pad_token_id = pad_token_id,
                        min_budget = cfg_min_budget (config self),
                        max_budget = cfg_max_budget (config self),
                        replace_tokens = replacement_tokens self\<rparr>
                       idx attention_mask w of
                  None \<Rightarrow> None
                | Some (Inl e, w') \<Rightarrow> Some (Inl e, w')
                | Some (Inr discarded, w') \<Rightarrow> Some (Inr None, w'))
             else
               (case model_generate gen
                       \<lparr>req_input_ids = idx,
                        req_attention_mask = attention_mask,
                        req_do_sample = do_sample,
                        req_max_new_tokens = response_length,
                        req_eos_token_id = eos_token_id,
                        req_pad_token_id = pad_token_id,
                        req_num_return_sequences = num_return_sequences,
                        req_stopping_criteria = []\<rparr> w of
                  (out, w') \<Rightarrow> Some (Inr (Some out), w')))
      in
        (case branch of
           None \<Rightarrow> None
         | Some (Inl e, w') \<Rightarrow> Some (Inl e, w')
         | Some (Inr bound_output_seqs, w') \<Rightarrow>
             (case bound_output_seqs of
                None \<Rightarrow> Some (Inl UnboundLocalError, w')
              | Some seq \<Rightarrow>
                  Some (assemble get_eos_mask (config self) p (nat num_return_sequences) seq,
                        w'))))"

section \<open>llm.py: the vLLM wrapper\<close>

text \<open>
  The object state that \<open>LLM.__init__\<close> sets up for budget forcing, beside the engine.
  A \<open>RequestOutput\<close> carries the token ids of each of its completions, its request id
  and the \<open>finished\<close> flag; log-probabilities are not modelled. The field
  \<open>token_ids\<close> is a sequence of integers: the engine of vLLM 0.6.3 fills it with a
  tuple, which \<open>_run_engine\<close> copies with \<open>list(...)\<close> before reading it; a list is
  the other sequence the annotation admits. A slice assignment into a tuple raises
  \<open>TypeError\<close>; into a list it replaces the slice. The outputs of a step are values of
  their own: \<open>_run_engine\<close> rewrites the output it was handed, and the engine, which is
  external, goes on from its own state.
\<close>

datatype token_seq = PyTuple "int list" | PyList "int list"

fun ids_of :: "token_seq \<Rightarrow> int list" where
  \<comment> \<open>\<open>list(token_ids)\<close>\<close>
  "ids_of (PyTuple xs) = xs"
| "ids_of (PyList xs) = xs"

fun assign_last_three :: "token_seq \<Rightarrow> int list \<Rightarrow> error + token_seq" where
  \<comment> \<open>\<open>token_ids[-3:] = v\<close>\<close>
  "assign_last_three (PyTuple xs) v = Inl TypeError"
| "assign_last_three (PyList xs) v = Inr (PyList (set_last_three xs v))"

record llm =
  llm_do_budget_forcing :: bool
  llm_min_budget :: "int option"
  think_tokens :: "int list list"
  llm_eos_token_id :: int
  llm_replacement_tokens :: "int list"

record request_output =
  request_id :: int
  outputs :: "token_seq list"
  finished :: bool

definition removed_vision_keys :: "string list" where
  "removed_vision_keys =
     [''image_token_id'', ''image_feature_size'', ''image_input_shape'', ''image_input_type'']"

definition LLM_init ::
  "string list \<Rightarrow> bool \<Rightarrow> tokenizer \<Rightarrow> error + 'e \<Rightarrow> error + llm \<times> 'e" where
  \<comment> \<open>\<open>kwargs\<close> are the names of the extra keyword arguments, \<open>is_tokenizer\<close> the result
      of the \<open>isinstance\<close> test, \<open>from_engine_args\<close> the result of building the external
      engine\<close>
  "LLM_init kwargs is_tokenizer tok from_engine_args =
     (if list_ex (\<lambda>k. k \<in> set kwargs) removed_vision_keys then Inl TypeError
      else if \<not> is_tokenizer then Inl ValueError
      else
        (let left_token_ids = left_matching_token_ids tok;
             right_token_ids = right_matching_token_ids tok;
             think = map (\<lambda>(left_id, right_id). [left_id, think_token_id, right_id])
                       (itertools_product left_token_ids right_token_ids);
             wait_ids = encode tok ''Wait''
         in
           if length wait_ids \<noteq> 1 then Inl AssertionError
           else
             (case first_id wait_ids of
                Inl e \<Rightarrow> Inl e
              | Inr wait_token_id \<Rightarrow>
             (case first_id (encode tok newline) of
                Inl e \<Rightarrow> Inl e
              | Inr new_line_id \<Rightarrow>
             (case first_id (encode tok '','') of
                Inl e \<Rightarrow> Inl e
              | Inr comma_id \<Rightarrow>
             (case from_engine_args of
                Inl e \<Rightarrow> Inl e
              | Inr llm_engine \<Rightarrow>
                  Inr (\<lparr>llm_do_budget_forcing = False, llm_min_budget = None,
                        think_tokens = think, llm_eos_token_id = eos_token_id tok,
                        llm_replacement_tokens = [new_line_id, wait_token_id, comma_id]\<rparr>,
                       llm_engine)))))))"

definition force_continue :: "llm \<Rightarrow> request_output \<Rightarrow> error + request_output" where
  \<comment> \<open>lines 326 to 337, for one output of a step\<close>
  "force_continue self output =
     (case outputs output of
        [] \<Rightarrow> Inl IndexError
      | first # others \<Rightarrow>
          (let token_ids = ids_of first in
           if llm_do_budget_forcing self then
             (case llm_min_budget self of
                None \<Rightarrow> Inl TypeError
              | Some mb \<Rightarrow>
                  if int (length token_ids) < mb \<and> length token_ids \<ge> 3 then
                    (if last_three token_ids \<in> set (think_tokens self)
                     then
                       (case assign_last_three first
                               (last_three token_ids @ llm_replacement_tokens self) of
                          Inl e \<Rightarrow> Inl e
                        | Inr first' \<Rightarrow> Inr (output\<lparr>outputs := first' # others\<rparr>))
                     else Inr output)
                  else Inr output)
           else Inr output))"

fun process_step ::
  "llm \<Rightarrow> request_output list \<Rightarrow> request_output list \<Rightarrow> error + request_output list" where
  \<comment> \<open>the \<open>for output in step_outputs\<close> loop; the second list is \<open>outputs\<close> so far\<close>
  "process_step self [] acc = Inr acc"
| "process_step self (output # rest) acc =
     (case force_continue self output of
        Inl e \<Rightarrow> Inl e
      | Inr output' \<Rightarrow>
          process_step self rest (if finished output' then acc @ [output'] else acc))"

text \<open>
  The engine is external: \<open>has_unfinished_requests\<close> and \<open>step\<close> over an engine state.
  The loop runs while the engine reports unfinished requests, so it is a partial
  function. The progress bar (\<open>use_tqdm\<close>) only reports and is left out.
\<close>

record 'e engine =
  has_unfinished_requests :: "'e \<Rightarrow> bool"
  step :: "'e \<Rightarrow> request_output list \<times> 'e"

partial_function (option) engine_loop ::
  "'e engine \<Rightarrow> llm \<Rightarrow> 'e \<Rightarrow> request_output list
     \<Rightarrow> (error + request_output list \<times> 'e) option" where
  "engine_loop eng self st acc =
     (if has_unfinished_requests eng st then
        (case step eng st of
           (step_outputs, st') \<Rightarrow>
             (case process_step self step_outputs acc of
                Inl e \<Rightarrow> Some (Inl e)
              | Inr acc' \<Rightarrow> engine_loop eng self st' acc'))
      else Some (Inr (acc, st)))"

definition pad_sequence :: "tensor2 \<Rightarrow> int \<Rightarrow> error + tensor2" where
  \<comment> \<open>\<open>pad_sequence(seqs, batch_first=True, padding_value=v)\<close>: right-pads to the longest\<close>
  "pad_sequence seqs v =
     (if seqs = [] then Inl RuntimeError
      else Inr (map (\<lambda>row. row @ replicate (Max (set (map length seqs)) - length row) v)
                  seqs))"

definition post_process_outputs :: "int \<Rightarrow> request_output list \<Rightarrow> error + tensor2" where
  "post_process_outputs pad_token_id request_outputs =
     pad_sequence (map ids_of (concat (map outputs request_outputs))) pad_token_id"

definition run_engine ::
  "'e engine \<Rightarrow> llm \<Rightarrow> int \<Rightarrow> 'e \<Rightarrow> (error + tensor2) option" where
  "run_engine eng self pad_token_id st =
     (case engine_loop eng self st [] of
        None \<Rightarrow> None
      | Some (Inl e) \<Rightarrow> Some (Inl e)
      | Some (Inr (acc, st')) \<Rightarrow>
          Some (post_process_outputs pad_token_id (sort_key request_id acc)))"

section \<open>Generator contract and example inputs\<close>

text \<open>
  What the rollout code relies on from \<open>model.generate\<close>: the result has one row per
  input row, every row is its input row followed by the same number \<open>k\<close> of new
  columns (the result is a rectangular tensor), and \<open>k\<close> is at most
  \<open>max_new_tokens\<close>.
\<close>

definition appends :: "tensor2 \<Rightarrow> tensor2 \<Rightarrow> nat \<Rightarrow> bool" where
  "appends inp out k \<longleftrightarrow>
     length out = length inp \<and>
     (\<forall>i < length inp. length (out ! i) = length (inp ! i) + k
        \<and> take (length (inp ! i)) (out ! i) = inp ! i)"

definition generator_contract :: "'s generator \<Rightarrow> bool" where
  "generator_contract gen \<longleftrightarrow>
     (\<forall>req s. \<exists>k. int k \<le> max 0 (req_max_new_tokens req)
        \<and> appends (req_input_ids req) (fst (gen req s)) k)"

text \<open>
  Concrete inputs for the evaluations below: a three-token vocabulary with the ids of
  Qwen2.5, a generator that appends up to two tokens \<open>7\<close> per call and counts its calls,
  and a vLLM engine whose single request finishes after one token.
\<close>

definition ex_tokenizer :: tokenizer where
  "ex_tokenizer =
     \<lparr>encode = (\<lambda>s. if s = ''Wait'' then [14190] else if s = newline then [198]
                     else if s = '','' then [11] else []),
      get_vocab = [(''</'', 522), (''think'', 26865), (''>'', 29)],
      eos_token_id = 151645\<rparr>"

definition ex_generator :: "nat generator" where
  "ex_generator req s =
     (map (\<lambda>row. row @ replicate (nat (min 2 (req_max_new_tokens req))) 7) (req_input_ids req),
      Suc s)"

definition ex_config :: "int \<Rightarrow> bf_config" where
  "ex_config lo =
     \<lparr>bf_tokenizer = ex_tokenizer, bf_eos_token_id = 151645, bf_pad_token_id = 151643,
      min_budget = lo, max_budget = 400,
      replace_tokens = [newline \<mapsto> 198, ''Wait'' \<mapsto> 14190, '','' \<mapsto> 11]\<rparr>"

definition ex_criteria :: matching_criteria where
  "ex_criteria = \<lparr>mc_tokenizer = ex_tokenizer, think_token_combo = [(522, 26865, 29)]\<rparr>"

definition ex_world :: "nat world" where
  "ex_world = \<lparr>gen_state = 0, calls = []\<rparr>"

definition ex_engine :: "bool engine" where
  "ex_engine =
     \<lparr>has_unfinished_requests = (\<lambda>pending. pending),
      step = (\<lambda>pending.
                ([\<lparr>request_id = 0, outputs = [PyTuple [9]], finished = True\<rparr>], False))\<rparr>"

definition ex_llm :: llm where
  "ex_llm =
     \<lparr>llm_do_budget_forcing = True, llm_min_budget = Some 5,
      think_tokens = [[522, 26865, 29]], llm_eos_token_id = 151645,
      llm_replacement_tokens = [198, 14190, 11]\<rparr>"

definition ex_rollout_config :: rollout_config where
  "ex_rollout_config =
     \<lparr>do_budget_forcing = True, cfg_min_budget = 2, cfg_max_budget = 400,
      cfg_do_sample = True, cfg_response_length = 400, cfg_n = 1\<rparr>"

definition ex_prompts :: prompts where
  "ex_prompts =
     \<lparr>p_input_ids = [[1, 2, 3]], p_attention_mask = [[1, 1, 1]], p_position_ids = [[0, 1, 2]],
      meta_eos_token_id = 151645, meta_pad_token_id = 151643,
      meta_do_sample = None, meta_response_length = None, meta_validate = None\<rparr>"

definition ex_rollout :: hf_rollout where
  "ex_rollout =
     \<lparr>hf_tokenizer = ex_tokenizer, config = ex_rollout_config,
      replacement_tokens = [newline \<mapsto> 198, ''Wait'' \<mapsto> 14190, '','' \<mapsto> 11]\<rparr>"

definition ex_bare_tokenizer :: tokenizer where
  "ex_bare_tokenizer =
     \<lparr>encode = (\<lambda>s. if s = ''Wait'' then [14190] else if s = newline then [198]
                     else if s = '','' then [11] else []),
      get_vocab = [(''think'', 26865), (''>'', 29)],
      eos_token_id = 151645\<rparr>"

definition ex_eos_criteria :: matching_criteria where
  "ex_eos_criteria =
     \<lparr>mc_tokenizer = ex_tokenizer, think_token_combo = [(522, 26865, 151645)]\<rparr>"

definition ex_split_tokenizer :: tokenizer where
  "ex_split_tokenizer =
     \<lparr>encode = (\<lambda>s. if s = ''Wait'' then [54, 1315] else if s = newline then [198]
                     else if s = '','' then [11] else []),
      get_vocab = [(''</'', 522), (''think'', 26865), (''>'', 29)],
      eos_token_id = 151645\<rparr>"

definition ex_get_eos_mask :: "tensor2 \<Rightarrow> int \<Rightarrow> tensor2" where
  "ex_get_eos_mask response eos = map (map (\<lambda>t. 1)) response"

section \<open>Properties\<close>

subsection \<open>The match predicates\<close>

lemma row_matches_last_three:
  assumes "3 \<le> length row"
  shows "row_matches (last_three row) (p, q, r) \<longleftrightarrow>
     (row ! (length row - 3), row ! (length row - 2), row ! (length row - 1)) = (p, q, r)"
proof -
  obtain xs a b c where "row = xs @ [a, b, c]"
  proof -
    from assms obtain ys zs where "row = ys @ zs" "length zs = 3"
      by (metis append_take_drop_id diff_diff_cancel length_drop)
    then show ?thesis using that
      by (auto simp: length_Suc_conv numeral_3_eq_3)
  qed
  then show ?thesis by (simp add: last_three_def nth_append)
qed

lemma list_ex_row_matches:
  assumes "3 \<le> length row"
  shows "list_ex (row_matches (last_three row)) pattern \<longleftrightarrow>
     (row ! (length row - 3), row ! (length row - 2), row ! (length row - 1)) \<in> set pattern"
  using row_matches_last_three[OF assms] by (fastforce simp: list_ex_iff)

text \<open>
  Claim C4 says that \<open>get_matching_eos_mask\<close> returns a boolean vector whose entry
  \<open>i\<close> tells whether the last token of sequence \<open>i\<close> is the end-of-sequence id. The
  source compares the last tokens with the builtin \<open>int\<close>, not with its parameter
  \<open>eos\<close>: for every batch without an empty row the result is the plain bool
  \<open>False\<close>, whatever the tokens and whatever \<open>eos\<close>.
\<close>

theorem get_matching_eos_mask_ignores_eos:
  "[] \<notin> set input_ids \<Longrightarrow> get_matching_eos_mask input_ids eos = Inr (PyBool False)"
  by (simp add: get_matching_eos_mask_def select_last_def)

theorem get_matching_eos_mask_ignores_eos_witness:
  "[] \<notin> set [[1, 2, 7], [4, 5, 6 :: int]] \<and>
   get_matching_eos_mask [[1, 2, 7], [4, 5, 6]] 7 = Inr (PyBool False) \<and>
   get_matching_eos_mask [[1, 2, 7], [4, 5, 6]] 7 \<noteq> Inr (BoolTensor [True, False])"
  using get_matching_eos_mask_ignores_eos[of "[[1, 2, 7], [4, 5, 6]]" 7] by simp

text \<open>
  Claim C6 as stated fails on rows shorter than three tokens: a one-token row is
  broadcast against the three positions of every pattern, and matches a pattern made of
  that token three times.
\<close>

theorem get_matching_seq_mask_short_row_counterexample:
  "length [5 :: int] < 3 \<and> get_matching_seq_mask [[5]] [(5, 5, 5)] = Inr [True]"
  by (simp add: get_matching_seq_mask_def last_three_def broadcastable_def)

text \<open>
  Claim C6, as amended: for every batch whose sequences have at least three tokens and
  every pattern set, \<open>get_matching_seq_mask\<close> returns, for each sequence, whether its
  last three tokens equal some pattern of the set; this includes sequences of exactly
  three tokens.
\<close>

theorem get_matching_seq_mask_last_three:
  assumes "\<forall>row \<in> set input_ids. 3 \<le> length row"
  shows "get_matching_seq_mask input_ids pattern =
     Inr (map (\<lambda>row. (row ! (length row - 3), row ! (length row - 2), row ! (length row - 1))
                 \<in> set pattern) input_ids)"
proof -
  have b: "list_all broadcastable (map last_three input_ids)"
    using assms by (auto simp: list_all_iff broadcastable_def last_three_def)
  show ?thesis using b assms list_ex_row_matches
    by (simp add: get_matching_seq_mask_def)
qed

theorem get_matching_seq_mask_last_three_witness:
  "3 \<le> length [1, 2, 3 :: int] \<and> 3 \<le> length [9, 1, 2, 3, 4 :: int] \<and>
   get_matching_seq_mask [[1, 2, 3], [9, 1, 2, 3, 4]] [(7, 7, 7), (1, 2, 3)]
     = Inr [True, False]"
  using get_matching_seq_mask_last_three
          [of "[[1, 2, 3], [9, 1, 2, 3, 4]]" "[(7, 7, 7), (1, 2, 3)]"]
  by simp

subsection \<open>The Forcing loop and the budget\<close>

lemma forcing_body_budget:
  "forcing_body gen cfg crit rs st = Inr st' \<Longrightarrow> current_used_budget st' = current_used_budget st"
  by (auto simp: forcing_body_def split: sum.splits prod.splits)

lemma forcing_loop_exit_aux:
  assumes "forcing_loop gen cfg crit rs st = Some y"
  shows "current_used_budget st < min_budget cfg \<longrightarrow> (\<exists>e w. y = Inl (e, w))"
proof (rule forcing_loop.raw_induct
    [where P = "\<lambda>gen cfg crit rs st y.
       current_used_budget st < min_budget cfg \<longrightarrow> (\<exists>e w. y = Inl (e, w))", OF _ assms],
    goal_cases)
  case (1 loop gen cfg crit rs st y)
  show ?case
  proof
    assume lt: "current_used_budget st < min_budget cfg"
    show "\<exists>e w. y = Inl (e, w)"
    proof (cases "forcing_body gen cfg crit rs st")
      case (Inl e)
      with 1(2) lt show ?thesis by auto
    next
      case (Inr st')
      with 1(2) lt have "loop gen cfg crit rs st' = Some y" by simp
      moreover have "current_used_budget st' < min_budget cfg"
        using forcing_body_budget[OF Inr] lt by simp
      ultimately show ?thesis using 1(1) by blast
    qed
  qed
qed

lemma forcing_loop_no_normal_exit:
  "current_used_budget st < min_budget cfg \<Longrightarrow> forcing_loop gen cfg crit rs st \<noteq> Some (Inr st')"
  using forcing_loop_exit_aux[of gen cfg crit rs st "Inr st'"] by auto

lemma nonzero_iff: "i \<in> set (nonzero m) \<longleftrightarrow> i < length m \<and> m ! i"
  by (auto simp: nonzero_def)

lemma last_three_length: "3 \<le> length row \<Longrightarrow> length (last_three row) = 3"
  by (simp add: last_three_def)

lemma splice_ok:
  assumes "out \<noteq> []" and "\<forall>row \<in> set out. 3 \<le> length row"
    and "length rs = 3" and "replace_tokens cfg newline = Some nl"
  shows "\<exists>out1. splice cfg crit rs out = Inr out1 \<and> length out1 = length out
           \<and> (\<forall>i < length out. length (out1 ! i) = length (out ! i))"
proof -
  have b: "list_all broadcastable (map last_three out)"
    using assms(2) by (auto simp: list_all_iff broadcastable_def last_three_length)
  have ne: "[] \<notin> set out" using assms(2) by auto
  have l3: "list_all (\<lambda>row. length (last_three row) = length rs) out"
    using assms(2,3) by (auto simp: list_all_iff last_three_length)
  show ?thesis
    using b ne l3 assms
    by (auto simp: splice_def get_matching_seq_mask_def get_matching_eos_mask_def
        select_last_def setitem_rows_last_three_def dict_get_def set_last_three_def)
qed

lemma appends_length: "appends inp out k \<Longrightarrow> length out = length inp"
  by (simp add: appends_def)

lemma appends_row: "appends inp out k \<Longrightarrow> i < length inp \<Longrightarrow> length (out ! i) = length (inp ! i) + k"
  by (simp add: appends_def)

lemma contract_appends:
  "generator_contract gen \<Longrightarrow> gen req s = (out, s') \<Longrightarrow>
     \<exists>k. int k \<le> max 0 (req_max_new_tokens req) \<and> appends (req_input_ids req) out k"
  unfolding generator_contract_def by (metis fst_conv)

lemma cat_ones_ok:
  "length m = length out \<Longrightarrow> \<exists>m'. cat_ones m out n = Inr m' \<and> length m' = length out"
  by (simp add: cat_ones_def)

lemma forcing_body_ok:
  assumes c: "generator_contract gen"
    and ne: "output_seqs st \<noteq> []"
    and l3: "\<forall>row \<in> set (output_seqs st). 3 \<le> length row"
    and am: "length (attention_mask st) = length (output_seqs st)"
    and rs: "length rs = 3" and nl: "replace_tokens cfg newline = Some nl"
  shows "\<exists>st'. forcing_body gen cfg crit rs st = Inr st' \<and> output_seqs st' \<noteq> []
     \<and> (\<forall>row \<in> set (output_seqs st'). 3 \<le> length row)
     \<and> length (attention_mask st') = length (output_seqs st')"
proof -
  from splice_ok[OF ne l3 rs nl, of crit] obtain out1 where
    s: "splice cfg crit rs (output_seqs st) = Inr out1"
    and len1: "length out1 = length (output_seqs st)"
    and rows1: "\<forall>i < length (output_seqs st). length (out1 ! i) = length (output_seqs st ! i)"
    by blast
  from cat_ones_ok[of "attention_mask st" out1 "prompt_length st"] am len1 obtain m' where
    m: "cat_ones (attention_mask st) out1 (prompt_length st) = Inr m'"
    and lenm: "length m' = length out1" by auto
  define req where "req =
    \<lparr>req_input_ids = out1, req_attention_mask = m', req_do_sample = True,
     req_max_new_tokens = (max_budget cfg - 128) - current_used_budget st,
     req_eos_token_id = bf_eos_token_id cfg, req_pad_token_id = bf_pad_token_id cfg,
     req_num_return_sequences = 1,
     req_stopping_criteria = stopping_criteria crit (bf_eos_token_id cfg)\<rparr>"
  obtain out' s' where g: "gen req (gen_state (world st)) = (out', s')" by (cases "gen req (gen_state (world st))")
  from contract_appends[OF c g] obtain k where ap: "appends out1 out' k" by (auto simp: req_def)
  have len': "length out' = length out1" using ap by (rule appends_length)
  have rows': "3 \<le> length row" if "row \<in> set out'" for row
  proof -
    from that obtain i where i: "i < length out'" "row = out' ! i" by (auto simp: in_set_conv_nth)
    then have "length row = length (out1 ! i) + k" using appends_row[OF ap] len' by simp
    moreover have "length (out1 ! i) = length (output_seqs st ! i)" using rows1 i len' len1 by simp
    moreover have "3 \<le> length (output_seqs st ! i)" using l3 i len' len1 by simp
    ultimately show ?thesis by simp
  qed
  have "forcing_body gen cfg crit rs st =
     Inr (st\<lparr>output_seqs := out', input_idx := out1, attention_mask := m',
            prompt_length := shape1 out1,
            world := \<lparr>gen_state = s', calls = calls (world st) @ [req]\<rparr>\<rparr>)"
    using s m g by (simp add: forcing_body_def model_generate_def req_def)
  then show ?thesis using len' len1 ne lenm rows' by auto
qed

lemma forcing_loop_never_returns:
  assumes "forcing_loop gen cfg crit rs st = Some y"
  shows "\<not> (generator_contract gen \<and> current_used_budget st < min_budget cfg
     \<and> output_seqs st \<noteq> [] \<and> (\<forall>row \<in> set (output_seqs st). 3 \<le> length row)
     \<and> length (attention_mask st) = length (output_seqs st)
     \<and> length rs = 3 \<and> replace_tokens cfg newline \<noteq> None)"
proof (rule forcing_loop.raw_induct
    [where P = "\<lambda>gen cfg crit rs st y.
       \<not> (generator_contract gen \<and> current_used_budget st < min_budget cfg
     \<and> output_seqs st \<noteq> [] \<and> (\<forall>row \<in> set (output_seqs st). 3 \<le> length row)
     \<and> length (attention_mask st) = length (output_seqs st)
     \<and> length rs = 3 \<and> replace_tokens cfg newline \<noteq> None)", OF _ assms],
    goal_cases)
  case (1 loop gen cfg crit rs st y)
  show ?case
  proof
    assume a: "generator_contract gen \<and> current_used_budget st < min_budget cfg
     \<and> output_seqs st \<noteq> [] \<and> (\<forall>row \<in> set (output_seqs st). 3 \<le> length row)
     \<and> length (attention_mask st) = length (output_seqs st)
     \<and> length rs = 3 \<and> replace_tokens cfg newline \<noteq> None"
    then obtain nl where nl: "replace_tokens cfg newline = Some nl" by auto
    from a nl forcing_body_ok[of gen st rs cfg nl crit] obtain st' where
      b: "forcing_body gen cfg crit rs st = Inr st'" and ne: "output_seqs st' \<noteq> []"
      and l3: "\<forall>row \<in> set (output_seqs st'). 3 \<le> length row"
      and am: "length (attention_mask st') = length (output_seqs st')" by blast
    from 1(2) a b have "loop gen cfg crit rs st' = Some y" by simp
    moreover have "current_used_budget st' < min_budget cfg"
      using forcing_body_budget[OF b] a by simp
    ultimately show False using 1(1)[of gen cfg crit rs st' y] a ne l3 am by blast
  qed
qed

lemma splice_error: "splice cfg crit rs out = Inl e \<Longrightarrow> e \<noteq> AssertionError"
  by (auto simp: splice_def get_matching_seq_mask_def get_matching_eos_mask_def
      select_last_def setitem_rows_last_three_def dict_get_def Let_def
      split: sum.splits if_splits option.splits)

lemma forcing_body_error: "forcing_body gen cfg crit rs st = Inl e \<Longrightarrow> e \<noteq> AssertionError"
  by (auto simp: forcing_body_def cat_ones_def dest: splice_error
      split: sum.splits if_splits prod.splits)

lemma forcing_loop_error:
  assumes "forcing_loop gen cfg crit rs st = Some y"
  shows "\<forall>w. y \<noteq> Inl (AssertionError, w)"
proof (rule forcing_loop.raw_induct
    [where P = "\<lambda>gen cfg crit rs st y. \<forall>w. y \<noteq> Inl (AssertionError, w)", OF _ assms],
    goal_cases)
  case (1 loop gen cfg crit rs st y)
  show ?case
  proof (cases "current_used_budget st < min_budget cfg")
    case True
    show ?thesis
    proof (cases "forcing_body gen cfg crit rs st")
      case (Inl e)
      with 1(2) True forcing_body_error[OF Inl] show ?thesis by auto
    next
      case (Inr st')
      with 1(2) True have "loop gen cfg crit rs st' = Some y" by simp
      then show ?thesis by (rule 1(1))
    qed
  next
    case False
    with 1(2) show ?thesis by auto
  qed
qed

lemma ex_generator_contract: "generator_contract ex_generator"
  unfolding generator_contract_def
proof (intro allI)
  fix req :: gen_request and s :: nat
  show "\<exists>k. int k \<le> max 0 (req_max_new_tokens req)
          \<and> appends (req_input_ids req) (fst (ex_generator req s)) k"
    by (rule exI[of _ "nat (min 2 (req_max_new_tokens req))"])
       (auto simp: appends_def ex_generator_def)
qed

lemma ex_init:
  "MatchingTokensStoppingCriteria_init ex_tokenizer =
     Inr \<lparr>mc_tokenizer = ex_tokenizer, think_token_combo = [(522, 26865, 29)]\<rparr>"
  by (simp add: MatchingTokensStoppingCriteria_init_def torch_stack_def itertools_product_def
      left_matching_token_ids_def right_matching_token_ids_def ex_tokenizer_def
      endswith_def startswith_def think_token_id_def)

lemma ex_replacement:
  "make_replacement_seq (replace_tokens (ex_config lo)) = Inr [198, 14190, 11]"
  by (simp add: make_replacement_seq_def dict_get_def ex_config_def newline_def)

lemma ex_priming:
  "output_seqs (priming ex_generator (ex_config lo) crit [[1, 2, 3]] [[1, 1, 1]] ex_world)
     = [[1, 2, 3, 7, 7]] \<and>
   attention_mask (priming ex_generator (ex_config lo) crit [[1, 2, 3]] [[1, 1, 1]] ex_world)
     = [[1, 1, 1]] \<and>
   current_used_budget (priming ex_generator (ex_config lo) crit [[1, 2, 3]] [[1, 1, 1]] ex_world)
     = 2"
  by (simp add: priming_def model_generate_def ex_generator_def ex_config_def shape1_def
      ex_world_def numeral_2_eq_2)

text \<open>
  Claim C1 says that the Forcing loop of \<open>budget_forcing_gen\<close> terminates: every
  request reaches \<open>min_budget\<close>, or the controller fails with a progress-stall error.
  The source assigns \<open>current_used_budget\<close> once, before the loop, and the loop body
  never assigns it again, so the loop condition never changes. With a generator that
  keeps its contract, on a batch whose rows have at least three tokens, the loop entered
  with \<open>current_used_budget < min_budget\<close> never exits: neither normally nor with an
  error.
\<close>

theorem forcing_loop_diverges:
  assumes "generator_contract gen"
    and "current_used_budget st < min_budget cfg"
    and "output_seqs st \<noteq> []" and "\<forall>row \<in> set (output_seqs st). 3 \<le> length row"
    and "length (attention_mask st) = length (output_seqs st)"
    and "length rs = 3" and "replace_tokens cfg newline \<noteq> None"
  shows "forcing_loop gen cfg crit rs st = None"
proof (cases "forcing_loop gen cfg crit rs st")
  case None
  then show ?thesis .
next
  case (Some y)
  from forcing_loop_never_returns[OF Some] assms show ?thesis by blast
qed

theorem forcing_loop_diverges_witness:
  "current_used_budget
     (priming ex_generator (ex_config 10) ex_criteria [[1, 2, 3]] [[1, 1, 1]] ex_world)
     < min_budget (ex_config 10) \<and>
   forcing_loop ex_generator (ex_config 10) ex_criteria [198, 14190, 11]
     (priming ex_generator (ex_config 10) ex_criteria [[1, 2, 3]] [[1, 1, 1]] ex_world) = None"
  using forcing_loop_diverges[OF ex_generator_contract,
      of "priming ex_generator (ex_config 10) ex_criteria [[1, 2, 3]] [[1, 1, 1]] ex_world"
         "ex_config 10" "[198, 14190, 11]" ex_criteria]
    ex_priming[of 10 ex_criteria]
  by (simp add: ex_config_def)

text \<open>
  Claim C9: \<open>budget_forcing_gen\<close> raises the configuration error (the
  \<open>AssertionError\<close> of its first statement) if and only if
  \<open>max_budget - min_budget \<le> 128\<close>, and when it does, no call to the generator has
  been made: the generator state and the list of calls are the ones it was given.
\<close>

theorem budget_forcing_gen_configuration_error:
  "(max_budget cfg - min_budget cfg \<le> 128 \<longrightarrow>
      budget_forcing_gen gen cfg input_ids input_attention_masks w
        = Some (Inl AssertionError, w)) \<and>
   (128 < max_budget cfg - min_budget cfg \<longrightarrow>
      (\<forall>w'. budget_forcing_gen gen cfg input_ids input_attention_masks w
        \<noteq> Some (Inl AssertionError, w')))"
proof (intro conjI impI allI)
  assume "max_budget cfg - min_budget cfg \<le> 128"
  then show "budget_forcing_gen gen cfg input_ids input_attention_masks w
        = Some (Inl AssertionError, w)"
    by (simp add: budget_forcing_gen_def)
next
  fix w'
  assume m: "128 < max_budget cfg - min_budget cfg"
  show "budget_forcing_gen gen cfg input_ids input_attention_masks w
        \<noteq> Some (Inl AssertionError, w')"
  proof
    assume a: "budget_forcing_gen gen cfg input_ids input_attention_masks w
        = Some (Inl AssertionError, w')"
    from a m obtain crit where
      c: "MatchingTokensStoppingCriteria_init (bf_tokenizer cfg) = Inr crit"
      by (auto simp: budget_forcing_gen_def MatchingTokensStoppingCriteria_init_def
          torch_stack_def split: sum.splits if_splits)
    from a m c obtain rs where r: "make_replacement_seq (replace_tokens cfg) = Inr rs"
      by (auto simp: budget_forcing_gen_def make_replacement_seq_def dict_get_def
          split: sum.splits option.splits)
    define st0 where "st0 = priming gen cfg crit input_ids input_attention_masks w"
    from a m c r obtain y where l: "forcing_loop gen cfg crit rs st0 = Some y"
      by (auto simp: budget_forcing_gen_def st0_def split: option.splits)
    show False
    proof (cases y)
      case (Inl ew)
      with a m c r l forcing_loop_error[OF l] show False
        by (auto simp: budget_forcing_gen_def st0_def split: prod.splits)
    next
      case (Inr st)
      with a m c r l show False
        by (auto simp: budget_forcing_gen_def st0_def finishing_def cat_ones_def
            split: sum.splits prod.splits if_splits)
    qed
  qed
qed

theorem budget_forcing_gen_configuration_error_witness:
  "budget_forcing_gen ex_generator (ex_config 300) [[1, 2, 3]] [[1, 1, 1]] ex_world
     = Some (Inl AssertionError, ex_world) \<and>
   (\<forall>w'. budget_forcing_gen ex_generator (ex_config 2) [[1, 2, 3]] [[1, 1, 1]] ex_world
     \<noteq> Some (Inl AssertionError, w'))"
  using budget_forcing_gen_configuration_error
          [of "ex_config 300" ex_generator "[[1, 2, 3]]" "[[1, 1, 1]]" ex_world]
        budget_forcing_gen_configuration_error
          [of "ex_config 2" ex_generator "[[1, 2, 3]]" "[[1, 1, 1]]" ex_world]
  by (simp add: ex_config_def)

lemma appends_shape1:
  assumes "appends inp out k" and "inp \<noteq> []"
  shows "shape1 out = shape1 inp + k"
proof -
  from assms have "out \<noteq> []" by (auto simp: appends_def)
  moreover have "length (out ! 0) = length (inp ! 0) + k"
    using assms by (auto simp: appends_def)
  ultimately show ?thesis using assms(2)
    by (cases out; cases inp) (auto simp: shape1_def)
qed

text \<open>
  A call of \<open>budget_forcing_gen\<close> that returns has not entered the Forcing loop: its
  first round already produced \<open>min_budget\<close> new tokens, and the final round adds at
  most \<open>max_budget - current_used_budget\<close>. So the rows it returns have between
  \<open>min_budget\<close> and \<open>max_budget\<close> new tokens.
\<close>

lemma budget_forcing_gen_returned_bounds:
  assumes c: "generator_contract gen"
    and rect: "\<forall>row \<in> set input_ids. length row = shape1 input_ids"
    and run: "budget_forcing_gen gen cfg input_ids input_attention_masks w = Some (Inr out, w')"
    and row: "row \<in> set out"
    and nonneg: "0 \<le> min_budget cfg"
  shows "min_budget cfg \<le> int (length row) - int (shape1 input_ids)
       \<and> int (length row) - int (shape1 input_ids) \<le> max_budget cfg"
proof -
  from run have m: "128 < max_budget cfg - min_budget cfg"
    by (auto simp: budget_forcing_gen_def split: if_splits)
  from run m obtain crit where
    cr: "MatchingTokensStoppingCriteria_init (bf_tokenizer cfg) = Inr crit"
    by (auto simp: budget_forcing_gen_def split: sum.splits)
  from run m cr obtain rs where r: "make_replacement_seq (replace_tokens cfg) = Inr rs"
    by (auto simp: budget_forcing_gen_def split: sum.splits)
  define st0 where "st0 = priming gen cfg crit input_ids input_attention_masks w"
  from run m cr r obtain st where l: "forcing_loop gen cfg crit rs st0 = Some (Inr st)"
    and f: "finishing gen cfg st = (Inr out, w')"
    by (auto simp: budget_forcing_gen_def st0_def split: option.splits sum.splits prod.splits)
  have ge: "\<not> current_used_budget st0 < min_budget cfg"
    using forcing_loop_no_normal_exit[of st0 cfg gen crit rs st] l by auto
  with l have st: "st = st0" by (simp add: forcing_loop.simps[of gen cfg crit rs st0])
  define req1 where "req1 =
    \<lparr>req_input_ids = input_ids, req_attention_mask = input_attention_masks,
     req_do_sample = True, req_max_new_tokens = max_budget cfg - 128,
     req_eos_token_id = bf_eos_token_id cfg, req_pad_token_id = bf_pad_token_id cfg,
     req_num_return_sequences = 1,
     req_stopping_criteria = stopping_criteria crit (bf_eos_token_id cfg)\<rparr>"
  obtain out1 s1 where g1: "gen req1 (gen_state w) = (out1, s1)"
    by (cases "gen req1 (gen_state w)")
  have o1: "output_seqs st0 = out1"
    and cub: "current_used_budget st0 = int (shape1 out1) - int (shape1 input_ids)"
    using g1 by (simp_all add: st0_def priming_def model_generate_def req1_def)
  from contract_appends[OF c g1] obtain k1 where
    k1: "int k1 \<le> max 0 (max_budget cfg - 128)" and a1: "appends input_ids out1 k1"
    by (auto simp: req1_def)
  from f obtain m2 where cm: "cat_ones (attention_mask st) (output_seqs st) (prompt_length st) = Inr m2"
    by (auto simp: finishing_def split: sum.splits)
  define req2 where "req2 =
    \<lparr>req_input_ids = output_seqs st, req_attention_mask = m2,
     req_do_sample = True, req_max_new_tokens = max_budget cfg - current_used_budget st,
     req_eos_token_id = bf_eos_token_id cfg, req_pad_token_id = bf_pad_token_id cfg,
     req_num_return_sequences = 1, req_stopping_criteria = []\<rparr>"
  obtain s2 where g2: "gen req2 (gen_state (world st)) = (out, s2)"
    using f cm by (auto simp: finishing_def model_generate_def req2_def split: prod.splits)
  from contract_appends[OF c g2] obtain k2 where
    k2: "int k2 \<le> max 0 (max_budget cfg - current_used_budget st)"
    and a2: "appends out1 out k2"
    using st o1 by (auto simp: req2_def)
  from row obtain i where i: "i < length out" "row = out ! i" by (auto simp: in_set_conv_nth)
  have li: "i < length input_ids" using i a1 a2 by (simp add: appends_def)
  then have ne: "input_ids \<noteq> []" by auto
  have "length row = length (input_ids ! i) + k1 + k2"
    using i li a1 a2 by (simp add: appends_def)
  moreover have "length (input_ids ! i) = shape1 input_ids" using rect li by simp
  ultimately have len: "int (length row) - int (shape1 input_ids) = int k1 + int k2" by simp
  have cub1: "current_used_budget st0 = int k1"
    using cub appends_shape1[OF a1 ne] by simp
  show ?thesis using len cub1 ge k1 k2 m st nonneg by auto
qed

lemma ex_run:
  "\<exists>w'. budget_forcing_gen ex_generator (ex_config 2) [[1, 2, 3]] [[1, 1, 1]] ex_world
     = Some (Inr [[1, 2, 3, 7, 7, 7, 7]], w')"
proof -
  let ?crit = "\<lparr>mc_tokenizer = ex_tokenizer, think_token_combo = [(522, 26865, 29)]\<rparr>"
  let ?st = "priming ex_generator (ex_config 2) ?crit [[1, 2, 3]] [[1, 1, 1]] ex_world"
  have p: "output_seqs ?st = [[1, 2, 3, 7, 7]]" "attention_mask ?st = [[1, 1, 1]]"
    "current_used_budget ?st = 2"
    using ex_priming[of 2 ?crit] by simp_all
  have l: "forcing_loop ex_generator (ex_config 2) ?crit [198, 14190, 11] ?st = Some (Inr ?st)"
    using p(3) by (subst forcing_loop.simps) (simp add: ex_config_def)
  have f: "fst (finishing ex_generator (ex_config 2) ?st) = Inr [[1, 2, 3, 7, 7, 7, 7]]"
    using p by (simp add: finishing_def cat_ones_def model_generate_def ex_generator_def
        ex_config_def numeral_2_eq_2 split: prod.splits)
  have "bf_tokenizer (ex_config 2) = ex_tokenizer" by (simp add: ex_config_def)
  then have "budget_forcing_gen ex_generator (ex_config 2) [[1, 2, 3]] [[1, 1, 1]] ex_world
     = Some (finishing ex_generator (ex_config 2) ?st)"
    using l ex_init ex_replacement[of 2]
    by (simp add: budget_forcing_gen_def) (simp add: ex_config_def)
  then show ?thesis using f by (cases "finishing ex_generator (ex_config 2) ?st") auto
qed

subsection \<open>The vLLM engine loop\<close>

lemma pad_sequence_single: "pad_sequence [ids] v = Inr [ids]"
  by (simp add: pad_sequence_def)

text \<open>
  Claim C3 says that every request of a budget-forced rollout that runs to completion
  has between \<open>min_budget\<close> and \<open>max_budget\<close> newly generated tokens. \<open>_run_engine\<close>
  rewrites only an output of at least three tokens whose tail is a terminator pattern;
  it has no maximum budget, and it does nothing when the engine finishes a request
  early. With budget forcing on, a request that the engine finishes in one step with
  fewer than three tokens, below the minimum budget, is returned as it is.
\<close>

theorem run_engine_returns_short_request:
  assumes "llm_do_budget_forcing self" and "llm_min_budget self = Some mb"
    and "has_unfinished_requests eng st"
    and "step eng st = ([output], st')"
    and "\<not> has_unfinished_requests eng st'"
    and "outputs output = [first]" and "finished output"
    and "length (ids_of first) < 3" and "int (length (ids_of first)) < mb"
  shows "run_engine eng self pad_token_id st = Some (Inr [ids_of first])"
proof -
  have f: "force_continue self output = Inr output"
    using assms by (simp add: force_continue_def)
  have "engine_loop eng self st' [output] = Some (Inr ([output], st'))"
    using assms(5) by (subst engine_loop.simps) simp
  then have "engine_loop eng self st [] = Some (Inr ([output], st'))"
    using assms(3,4,7) f by (subst engine_loop.simps) simp
  then show ?thesis
    using assms(6) by (simp add: run_engine_def post_process_outputs_def pad_sequence_single)
qed

theorem run_engine_returns_short_request_witness:
  "llm_do_budget_forcing ex_llm \<and> llm_min_budget ex_llm = Some 5 \<and>
   int (length [9 :: int]) < 5 \<and>
   run_engine ex_engine ex_llm 151643 True = Some (Inr [[9]])"
  using run_engine_returns_short_request
          [of ex_llm 5 ex_engine True
              "\<lparr>request_id = 0, outputs = [PyTuple [9]], finished = True\<rparr>" False
              "PyTuple [9]" 151643]
  by (simp add: ex_llm_def ex_engine_def)

subsection \<open>The rollout entry point\<close>

text \<open>
  Claim C2 says that with budget forcing enabled \<open>_generate_minibatch\<close> returns the
  sequences computed by \<open>budget_forcing_gen\<close>. The source calls
  \<open>budget_forcing_gen\<close> without binding its result; \<open>output_seqs\<close> is bound only in
  the other branch. So with budget forcing enabled the entry point never returns a
  batch, and whenever \<open>budget_forcing_gen\<close> returns its sequences the entry point
  raises \<open>UnboundLocalError\<close> at \<open>seq = output_seqs\<close>.
\<close>

theorem generate_minibatch_discards_budget_forcing:
  assumes "\<not> meta_get (meta_validate p) False" and "do_budget_forcing (config self)"
  shows "(\<forall>r w'. generate_minibatch get_eos_mask gen self p w \<noteq> Some (Inr r, w')) \<and>
    (\<forall>out w'.
       budget_forcing_gen gen
         \<lparr>bf_tokenizer = hf_tokenizer self, bf_eos_token_id = meta_eos_token_id p,
          bf_pad_token_id = meta_pad_token_id p, min_budget = cfg_min_budget (config self),
          max_budget = cfg_max_budget (config self),
          replace_tokens = replacement_tokens self\<rparr>
         (p_input_ids p) (p_attention_mask p) w = Some (Inr out, w') \<longrightarrow>
       generate_minibatch get_eos_mask gen self p w = Some (Inl UnboundLocalError, w'))"
  using assms
  by (auto simp: generate_minibatch_def Let_def split: option.splits sum.splits prod.splits)

lemma ex_HFRollout_init:
  "HFRollout_init ex_tokenizer ex_rollout_config =
     Inr \<lparr>hf_tokenizer = ex_tokenizer, config = ex_rollout_config,
          replacement_tokens = [newline \<mapsto> 198, ''Wait'' \<mapsto> 14190, '','' \<mapsto> 11]\<rparr>"
  by (simp add: HFRollout_init_def ex_tokenizer_def first_id_def newline_def)

lemma ex_rollout_cfg:
  "\<lparr>bf_tokenizer = hf_tokenizer ex_rollout, bf_eos_token_id = meta_eos_token_id ex_prompts,
          bf_pad_token_id = meta_pad_token_id ex_prompts,
          min_budget = cfg_min_budget (config ex_rollout),
          max_budget = cfg_max_budget (config ex_rollout),
          replace_tokens = replacement_tokens ex_rollout\<rparr> = ex_config 2"
  by (simp add: ex_rollout_def ex_prompts_def ex_rollout_config_def ex_config_def)

theorem generate_minibatch_discards_budget_forcing_witness:
  "\<not> meta_get (meta_validate ex_prompts) False \<and> do_budget_forcing (config ex_rollout) \<and>
   (\<exists>w'. generate_minibatch ex_get_eos_mask ex_generator ex_rollout ex_prompts ex_world
      = Some (Inl UnboundLocalError, w'))"
proof -
  have v: "\<not> meta_get (meta_validate ex_prompts) False"
    by (simp add: meta_get_def ex_prompts_def)
  have b: "do_budget_forcing (config ex_rollout)"
    by (simp add: ex_rollout_def ex_rollout_config_def)
  from ex_run obtain w' where
    "budget_forcing_gen ex_generator (ex_config 2) [[1, 2, 3]] [[1, 1, 1]] ex_world
       = Some (Inr [[1, 2, 3, 7, 7, 7, 7]], w')" ..
  then have "budget_forcing_gen ex_generator
         \<lparr>bf_tokenizer = hf_tokenizer ex_rollout, bf_eos_token_id = meta_eos_token_id ex_prompts,
          bf_pad_token_id = meta_pad_token_id ex_prompts,
          min_budget = cfg_min_budget (config ex_rollout),
          max_budget = cfg_max_budget (config ex_rollout),
          replace_tokens = replacement_tokens ex_rollout\<rparr>
         (p_input_ids ex_prompts) (p_attention_mask ex_prompts) ex_world
       = Some (Inr [[1, 2, 3, 7, 7, 7, 7]], w')"
    unfolding ex_rollout_cfg by (simp add: ex_prompts_def)
  with generate_minibatch_discards_budget_forcing[OF v b, of ex_get_eos_mask ex_generator ex_world]
  have "generate_minibatch ex_get_eos_mask ex_generator ex_rollout ex_prompts ex_world
      = Some (Inl UnboundLocalError, w')" by blast
  with v b show ?thesis by blast
qed

subsection \<open>The terminator pattern set\<close>

lemma product_empty:
  "xs = [] \<or> ys = [] \<Longrightarrow> itertools_product xs ys = []"
  by (auto simp: itertools_product_def)

text \<open>
  Claim C5 says that for a vocabulary without a token ending in \<open></\<close> or without a
  token starting with \<open>>\<close> the pattern set is built without crashing and never
  matches. \<open>MatchingTokensStoppingCriteria.__init__\<close> hands the empty list of patterns
  to \<open>torch.stack\<close>, which raises; \<open>budget_forcing_gen\<close> builds the criteria before
  its first round, so the whole rollout fails with that error.
\<close>

theorem degenerate_vocabulary_crashes:
  assumes "left_matching_token_ids tok = [] \<or> right_matching_token_ids tok = []"
  shows "MatchingTokensStoppingCriteria_init tok = Inl RuntimeError \<and>
    (128 < max_budget cfg - min_budget cfg \<and> bf_tokenizer cfg = tok \<longrightarrow>
       budget_forcing_gen gen cfg input_ids input_attention_masks w
         = Some (Inl RuntimeError, w))"
proof -
  have i: "MatchingTokensStoppingCriteria_init tok = Inl RuntimeError"
    using product_empty[OF assms]
    by (simp add: MatchingTokensStoppingCriteria_init_def torch_stack_def)
  then show ?thesis by (auto simp: budget_forcing_gen_def)
qed

theorem degenerate_vocabulary_crashes_witness:
  "left_matching_token_ids ex_bare_tokenizer = [] \<and>
   MatchingTokensStoppingCriteria_init ex_bare_tokenizer = Inl RuntimeError \<and>
   budget_forcing_gen ex_generator ((ex_config 2)\<lparr>bf_tokenizer := ex_bare_tokenizer\<rparr>)
     [[1, 2, 3]] [[1, 1, 1]] ex_world = Some (Inl RuntimeError, ex_world)"
proof -
  have l: "left_matching_token_ids ex_bare_tokenizer = []"
    by (simp add: left_matching_token_ids_def ex_bare_tokenizer_def endswith_def)
  from degenerate_vocabulary_crashes
         [of ex_bare_tokenizer "(ex_config 2)\<lparr>bf_tokenizer := ex_bare_tokenizer\<rparr>"
             ex_generator "[[1, 2, 3]]" "[[1, 1, 1]]" ex_world] l
  show ?thesis by (simp add: ex_config_def)
qed

lemma llm_degenerate_vocabulary:
  assumes "left_matching_token_ids tok = [] \<or> right_matching_token_ids tok = []"
    and "LLM_init kwargs is_tokenizer tok from_engine_args = Inr (self, llm_engine)"
  shows "think_tokens self = []"
  using assms(2) product_empty[OF assms(1)]
  by (auto simp: LLM_init_def Let_def split: if_splits sum.splits)

subsection \<open>Splicing\<close>

text \<open>
  Claim C7 says that after terminator splicing the three positions that held the
  terminator hold the replacement run. In \<open>_run_engine\<close>, when the tail of an output
  of the engine is a terminator pattern below the minimum budget, the slice assignment
  of line 335 is made into the tuple that the output carries and raises
  \<open>TypeError\<close>: nothing is spliced.
\<close>

theorem force_continue_raises_on_terminator:
  assumes "llm_do_budget_forcing self" and "llm_min_budget self = Some mb"
    and "outputs output = PyTuple token_ids # others"
    and "int (length token_ids) < mb" and "3 \<le> length token_ids"
    and "last_three token_ids \<in> set (think_tokens self)"
  shows "force_continue self output = Inl TypeError"
  using assms by (simp add: force_continue_def)

theorem force_continue_raises_on_terminator_witness:
  "llm_do_budget_forcing ex_llm \<and> llm_min_budget ex_llm = Some 5 \<and>
   last_three [40, 522, 26865, 29] \<in> set (think_tokens ex_llm) \<and>
   force_continue ex_llm
     \<lparr>request_id = 0, outputs = [PyTuple [40, 522, 26865, 29]], finished = False\<rparr>
     = Inl TypeError"
  using force_continue_raises_on_terminator
          [of ex_llm 5
              "\<lparr>request_id = 0, outputs = [PyTuple [40, 522, 26865, 29]], finished = False\<rparr>"
              "[40, 522, 26865, 29]" "[]"]
  by (simp add: ex_llm_def last_three_def)

text \<open>
  On an output that carries a list the same assignment succeeds, and writes the old
  last three tokens followed by the replacement run: the terminator stays where it was
  and the run is appended after it.
\<close>

lemma force_continue_list_keeps_terminator:
  assumes "llm_do_budget_forcing self" and "llm_min_budget self = Some mb"
    and "outputs output = PyList token_ids # others"
    and "int (length token_ids) < mb" and "3 \<le> length token_ids"
    and "last_three token_ids \<in> set (think_tokens self)"
  shows "force_continue self output =
     Inr (output\<lparr>outputs := PyList (token_ids @ llm_replacement_tokens self) # others\<rparr>)"
proof -
  have "take (length token_ids - 3) token_ids @ last_three token_ids = token_ids"
    by (simp add: last_three_def)
  then have "set_last_three token_ids (last_three token_ids @ llm_replacement_tokens self)
     = token_ids @ llm_replacement_tokens self"
    by (simp add: set_last_three_def flip: append_assoc)
  then show ?thesis using assms by (simp add: force_continue_def)
qed

lemma last_three_set_last_three:
  "3 \<le> length row \<Longrightarrow> length v = 3 \<Longrightarrow> last_three (set_last_three row v) = v"
  by (simp add: last_three_def set_last_three_def)

text \<open>
  Claim C8: in a round of \<open>budget_forcing_gen\<close> (lines 93 to 98), for every sequence
  whose tail matches a terminator pattern and whose last token is the end-of-sequence
  id, the tail after the round is the terminator replacement run: the sequence is its
  old tokens without the last three, followed by the replacement run, and the
  end-of-sequence assignment has overwritten none of them.
\<close>

theorem splice_terminator_precedence:
  assumes ok: "splice cfg crit replacement_seq out = Inr out'"
    and len: "length replacement_seq = 3"
    and i: "i < length out"
    and m: "(out ! i ! (length (out ! i) - 3), out ! i ! (length (out ! i) - 2),
             out ! i ! (length (out ! i) - 1)) \<in> set (think_token_combo crit)"
    and l3: "3 \<le> length (out ! i)"
    and eos: "last (out ! i) = eos_token_id (bf_tokenizer cfg)"
  shows "out' ! i = take (length (out ! i) - 3) (out ! i) @ replacement_seq
       \<and> last_three (out' ! i) = replacement_seq"
proof -
  from ok obtain mask where
    g: "get_matching_seq_mask out (think_token_combo crit) = Inr mask"
    by (auto simp: splice_def split: sum.splits)
  then have mask: "mask = map (\<lambda>t. list_ex (row_matches t) (think_token_combo crit))
                          (map last_three out)"
    by (auto simp: get_matching_seq_mask_def Let_def split: if_splits)
  have "mask ! i" using mask i list_ex_row_matches[OF l3] m by simp
  then have idx: "i \<in> set (nonzero mask)" using mask i by (simp add: nonzero_iff)
  from ok g obtain out1 where
    s1: "setitem_rows_last_three out (nonzero mask) replacement_seq = Inr out1"
    by (auto simp: splice_def split: sum.splits)
  then have o1: "out1 = map (\<lambda>j. if j \<in> set (nonzero mask)
                   then set_last_three (out ! j) replacement_seq else out ! j)
                   [0..<length out]"
    by (auto simp: setitem_rows_last_three_def split: if_splits)
  from ok g s1 have "out' = out1"
    by (auto simp: splice_def get_matching_eos_mask_def select_last_def
        split: sum.splits if_splits)
  then have "out' ! i = set_last_three (out ! i) replacement_seq"
    using o1 i idx by simp
  then show ?thesis using last_three_set_last_three[OF l3 len]
    by (simp add: set_last_three_def)
qed

theorem splice_terminator_precedence_witness:
  "splice (ex_config 10) ex_eos_criteria [198, 14190, 11]
      [[1, 2, 3, 4], [7, 522, 26865, 151645]]
     = Inr [[1, 2, 3, 4], [7, 198, 14190, 11]] \<and>
   last [7, 522, 26865, 151645] = eos_token_id (bf_tokenizer (ex_config 10)) \<and>
   last_three ([[1, 2, 3, 4], [7, 198, 14190, 11]] ! 1) = [198, 14190, 11]"
proof -
  have s: "splice (ex_config 10) ex_eos_criteria [198, 14190, 11]
      [[1, 2, 3, 4], [7, 522, 26865, 151645]]
     = Inr [[1, 2, 3, 4], [7, 198, 14190, 11]]"
    by (simp add: splice_def get_matching_seq_mask_def get_matching_eos_mask_def
        select_last_def setitem_rows_last_three_def dict_get_def ex_config_def
        ex_eos_criteria_def last_three_def broadcastable_def nonzero_def
        set_last_three_def newline_def upt_rec[of 0] upt_rec[of 1] upt_rec[of 2])
  have e: "last [7, 522, 26865, 151645] = eos_token_id (bf_tokenizer (ex_config 10))"
    by (simp add: ex_config_def ex_tokenizer_def)
  from splice_terminator_precedence[OF s _ _ _ _ , of 1]
  show ?thesis using s e by (simp add: ex_eos_criteria_def ex_config_def ex_tokenizer_def)
qed

subsection \<open>Constructing the rollout wrappers\<close>

lemma first_id_Inr: "first_id ids = Inr x \<Longrightarrow> \<exists>rest. ids = x # rest"
  by (auto simp: first_id_def split: list.splits)

lemma HFRollout_init_success:
  assumes "HFRollout_init tok cfg = Inr r"
  shows "\<exists>wait nl c rn rc. encode tok ''Wait'' = [wait] \<and> encode tok newline = nl # rn
     \<and> encode tok '','' = c # rc
     \<and> make_replacement_seq (replacement_tokens r) = Inr [nl, wait, c]"
proof -
  from assms have l: "length (encode tok ''Wait'') = 1"
    by (auto simp: HFRollout_init_def Let_def split: if_splits)
  then obtain wait where w: "encode tok ''Wait'' = [wait]"
    by (cases "encode tok ''Wait''") auto
  from assms w obtain nl where n: "first_id (encode tok newline) = Inr nl"
    by (auto simp: HFRollout_init_def first_id_def split: sum.splits)
  from assms w n obtain c where c: "first_id (encode tok '','') = Inr c"
    by (auto simp: HFRollout_init_def first_id_def split: sum.splits)
  from assms w n c have "replacement_tokens r =
      [newline \<mapsto> nl, ''Wait'' \<mapsto> wait, '','' \<mapsto> c]"
    by (auto simp: HFRollout_init_def first_id_def)
  then have "make_replacement_seq (replacement_tokens r) = Inr [nl, wait, c]"
    by (simp add: make_replacement_seq_def dict_get_def newline_def)
  with w first_id_Inr[OF n] first_id_Inr[OF c] show ?thesis by auto
qed

lemma LLM_init_success:
  assumes "LLM_init kwargs is_tokenizer tok from_engine_args = Inr (self, llm_engine)"
  shows "\<exists>wait nl c rn rc. encode tok ''Wait'' = [wait] \<and> encode tok newline = nl # rn
     \<and> encode tok '','' = c # rc \<and> llm_replacement_tokens self = [nl, wait, c]"
proof -
  from assms have l: "length (encode tok ''Wait'') = 1"
    by (auto simp: LLM_init_def Let_def split: if_splits)
  then obtain wait where w: "encode tok ''Wait'' = [wait]"
    by (cases "encode tok ''Wait''") auto
  from assms w obtain nl where n: "first_id (encode tok newline) = Inr nl"
    by (auto simp: LLM_init_def first_id_def Let_def split: sum.splits if_splits)
  from assms w n obtain c where c: "first_id (encode tok '','') = Inr c"
    by (auto simp: LLM_init_def first_id_def Let_def split: sum.splits if_splits)
  from assms w n c have "llm_replacement_tokens self = [nl, wait, c]"
    by (auto simp: LLM_init_def first_id_def Let_def split: sum.splits if_splits)
  with w first_id_Inr[OF n] first_id_Inr[OF c] show ?thesis by auto
qed

text \<open>
  Claim C10: \<open>HFRollout.__init__\<close> and \<open>LLM.__init__\<close> succeed only for a tokenizer
  that encodes \<open>Wait\<close> as exactly one id. For every other tokenizer they fail with an
  \<open>AssertionError\<close> (in \<open>LLM.__init__\<close> once the keyword and tokenizer-class checks
  that precede the assertion have passed), before the engine is built and so before any
  generation. On success the replacement run is the first id of the newline, the id of
  \<open>Wait\<close> and the first id of the comma, in this order.
\<close>

theorem rollout_init_wait_token:
  "(length (encode tok ''Wait'') \<noteq> 1 \<longrightarrow> HFRollout_init tok cfg = Inl AssertionError) \<and>
   (\<forall>r. HFRollout_init tok cfg = Inr r \<longrightarrow>
      (\<exists>wait nl c rn rc. encode tok ''Wait'' = [wait] \<and> encode tok newline = nl # rn
         \<and> encode tok '','' = c # rc
         \<and> make_replacement_seq (replacement_tokens r) = Inr [nl, wait, c])) \<and>
   (length (encode tok ''Wait'') \<noteq> 1
      \<and> \<not> list_ex (\<lambda>k. k \<in> set kwargs) removed_vision_keys \<and> is_tokenizer \<longrightarrow>
      LLM_init kwargs is_tokenizer tok from_engine_args = Inl AssertionError) \<and>
   (\<forall>self llm_engine.
      LLM_init kwargs is_tokenizer tok from_engine_args = Inr (self, llm_engine) \<longrightarrow>
      (\<exists>wait nl c rn rc. encode tok ''Wait'' = [wait] \<and> encode tok newline = nl # rn
         \<and> encode tok '','' = c # rc \<and> llm_replacement_tokens self = [nl, wait, c]))"
proof (intro conjI impI allI)
  assume "length (encode tok ''Wait'') \<noteq> 1"
  then show "HFRollout_init tok cfg = Inl AssertionError"
    by (simp add: HFRollout_init_def)
next
  fix r assume "HFRollout_init tok cfg = Inr r"
  then show "\<exists>wait nl c rn rc. encode tok ''Wait'' = [wait] \<and> encode tok newline = nl # rn
         \<and> encode tok '','' = c # rc
         \<and> make_replacement_seq (replacement_tokens r) = Inr [nl, wait, c]"
    by (rule HFRollout_init_success)
next
  assume "length (encode tok ''Wait'') \<noteq> 1
      \<and> \<not> list_ex (\<lambda>k. k \<in> set kwargs) removed_vision_keys \<and> is_tokenizer"
  then show "LLM_init kwargs is_tokenizer tok from_engine_args = Inl AssertionError"
    by (simp add: LLM_init_def)
next
  fix self llm_engine
  assume "LLM_init kwargs is_tokenizer tok from_engine_args = Inr (self, llm_engine)"
  then show "\<exists>wait nl c rn rc. encode tok ''Wait'' = [wait] \<and> encode tok newline = nl # rn
         \<and> encode tok '','' = c # rc \<and> llm_replacement_tokens self = [nl, wait, c]"
    by (rule LLM_init_success)
qed

theorem rollout_init_wait_token_witness:
  "length (encode ex_split_tokenizer ''Wait'') \<noteq> 1 \<and>
   HFRollout_init ex_split_tokenizer ex_rollout_config = Inl AssertionError \<and>
   LLM_init [] True ex_split_tokenizer (Inr ()) = Inl AssertionError \<and>
   HFRollout_init ex_tokenizer ex_rollout_config = Inr ex_rollout \<and>
   make_replacement_seq (replacement_tokens ex_rollout) = Inr [198, 14190, 11] \<and>
   (\<exists>self. LLM_init [] True ex_tokenizer (Inr ()) = Inr (self, ())
      \<and> llm_replacement_tokens self = [198, 14190, 11])"
proof -
  have a: "length (encode ex_split_tokenizer ''Wait'') \<noteq> 1"
    by (simp add: ex_split_tokenizer_def)
  have k: "\<not> list_ex (\<lambda>k. k \<in> set []) removed_vision_keys"
    by (simp add: removed_vision_keys_def)
  note t1 = rollout_init_wait_token[of ex_split_tokenizer ex_rollout_config "[]" True "Inr ()"]
  note t2 = rollout_init_wait_token[of ex_tokenizer ex_rollout_config "[]" True "Inr ()"]
  have h: "HFRollout_init ex_tokenizer ex_rollout_config = Inr ex_rollout"
    by (simp add: ex_HFRollout_init ex_rollout_def)
  have m: "make_replacement_seq (replacement_tokens ex_rollout) = Inr [198, 14190, 11]"
    by (simp add: make_replacement_seq_def dict_get_def ex_rollout_def newline_def)
  obtain self where l: "LLM_init [] True ex_tokenizer (Inr ()) = Inr (self, ())"
    by (simp add: LLM_init_def removed_vision_keys_def ex_tokenizer_def first_id_def
        newline_def Let_def)
  with t2 have "\<exists>wait nl c rn rc. encode ex_tokenizer ''Wait'' = [wait]
     \<and> encode ex_tokenizer newline = nl # rn
     \<and> encode ex_tokenizer '','' = c # rc \<and> llm_replacement_tokens self = [nl, wait, c]"
    by blast
  then have r: "llm_replacement_tokens self = [198, 14190, 11]"
    by (auto simp: ex_tokenizer_def newline_def)
  show ?thesis using a k t1 h m l r by auto
qed

end
